theory Spec2Isabelle
  imports Main
begin

section \<open>Python values, exceptions and observable events\<close>

text \<open>
  The module \<^verbatim>\<open>salt/modules/chefapi.py\<close> is dynamically typed. The parameters whose
  dynamic type decides a branch (\<^verbatim>\<open>force\<close>, \<^verbatim>\<open>run_list\<close>, \<^verbatim>\<open>dry_run\<close>) and the values
  the operations return are Python values; the parameters that are only interpolated
  with \<^verbatim>\<open>%s\<close> are strings, \<open>None\<close> being the absent value.
\<close>

datatype pyval =
    PNone
  | PBool bool
  | PInt int
  | PStr string
  | PList "pyval list"
  | PDict "(string \<times> pyval) list"

text \<open>
  Exceptions. \<open>NameError\<close>, \<open>AttributeError\<close> and \<open>TypeError\<close> are raised by the
  interpreter; \<open>Failure\<close> stands for any exception (a subclass of \<^verbatim>\<open>Exception\<close>) raised
  by an external facility.
\<close>

datatype exn =
    NameError string
  | AttributeError string
  | TypeError string
  | Failure string

datatype chef_api = ChefAPI string "string option" "string option"

text \<open>Every call that leaves the module is recorded, in order.\<close>

datatype event =
    Which string
  | IsFile string
  | ConfigRead string
  | Exec string
  | TmpCreate string
  | TmpWrite string string
  | TmpClose string
  | ApiNew string "string option" "string option"
  | ApiRequest chef_api string string

text \<open>
  The host the module runs on: the answers of the agent's facilities
  (\<^verbatim>\<open>__salt__['cmd.which']\<close>, \<^verbatim>\<open>__salt__['config.option']\<close>, \<^verbatim>\<open>__salt__['cmd.run']\<close>),
  of \<^verbatim>\<open>os.path.isfile\<close>, of the temporary-file facility (the \<^verbatim>\<open>name\<close> attribute of the
  file object it hands out) and of the REST client library.
\<close>

record world =
  cmd_which :: "string \<Rightarrow> string option"
  isfile :: "string \<Rightarrow> bool"
  config :: "string \<Rightarrow> string option"
  cmd_run :: "string \<Rightarrow> exn + string"
  tmp_name :: string
  chef_new :: "string \<Rightarrow> string option \<Rightarrow> string option \<Rightarrow> exn option"
  api_request :: "chef_api \<Rightarrow> string \<Rightarrow> string \<Rightarrow> exn + pyval"

text \<open>
  The module's global names that are not bound on every load. \<open>HAS_CHEF = None\<close> means
  the name is unbound. Lines 9--18 of the source: \<^verbatim>\<open>os\<close>, \<^verbatim>\<open>salt\<close>, \<^verbatim>\<open>salt.version\<close> and
  \<^verbatim>\<open>salt.loader\<close> are imported; \<^verbatim>\<open>HAS_CHEF = True\<close> is executed only when
  \<^verbatim>\<open>import chef\<close> succeeds, the \<^verbatim>\<open>except ImportError\<close> branch is \<^verbatim>\<open>pass\<close>; there is no
  \<^verbatim>\<open>import tempfile\<close>.
\<close>

record globals =
  HAS_CHEF :: "bool option"
  tempfile_bound :: bool

definition module_load :: "bool \<Rightarrow> globals" where
  "module_load chef_importable =
     \<lparr>HAS_CHEF = (if chef_importable then Some True else None), tempfile_bound = False\<rparr>"

section \<open>Effects: a result or an exception, and the events emitted\<close>

type_synonym 'a eff = "(exn + 'a) \<times> event list"

definition ret :: "'a \<Rightarrow> 'a eff" where
  "ret x = (Inr x, [])"

definition raise :: "exn \<Rightarrow> 'a eff" where
  "raise e = (Inl e, [])"

definition bind_eff :: "'a eff \<Rightarrow> ('a \<Rightarrow> 'b eff) \<Rightarrow> 'b eff" where
  "bind_eff m f =
     (case fst m of
        Inl e \<Rightarrow> (Inl e, snd m)
      | Inr x \<Rightarrow> (fst (f x), snd m @ snd (f x)))"

text \<open>\<^verbatim>\<open>try: m except Exception: h\<close>\<close>

definition try_except :: "'a eff \<Rightarrow> 'a eff \<Rightarrow> 'a eff" where
  "try_except m h =
     (case fst m of
        Inl e \<Rightarrow> (fst h, snd m @ snd h)
      | Inr x \<Rightarrow> m)"

subsection \<open>The external facilities\<close>

definition salt_cmd_which :: "world \<Rightarrow> string \<Rightarrow> string option eff" where
  "salt_cmd_which w name = (Inr (cmd_which w name), [Which name])"

definition os_path_isfile :: "world \<Rightarrow> string \<Rightarrow> bool eff" where
  "os_path_isfile w p = (Inr (isfile w p), [IsFile p])"

text \<open>
  Modelled from the spec: the agent's configuration-option lookup
  (\<^verbatim>\<open>__salt__['config.option']\<close>), which is not part of the module: it "returns the
  configured value or the default if absent", with "no validation, no type coercion".
\<close>

definition salt_config_option :: "world \<Rightarrow> string \<Rightarrow> string option \<Rightarrow> string option eff" where
  "salt_config_option w name dflt =
     (Inr (case config w name of Some v \<Rightarrow> Some v | None \<Rightarrow> dflt), [ConfigRead name])"

definition salt_cmd_run :: "world \<Rightarrow> string \<Rightarrow> string eff" where
  "salt_cmd_run w c = (cmd_run w c, [Exec c])"

definition chef_ChefAPI :: "world \<Rightarrow> string \<Rightarrow> string option \<Rightarrow> string option \<Rightarrow> chef_api eff" where
  "chef_ChefAPI w url key user =
     (case chef_new w url key user of
        Some e \<Rightarrow> (Inl e, [ApiNew url key user])
      | None \<Rightarrow> (Inr (ChefAPI url key user), [ApiNew url key user]))"

definition chef_api_request :: "world \<Rightarrow> chef_api \<Rightarrow> string \<Rightarrow> string \<Rightarrow> pyval eff" where
  "chef_api_request w api method endpoint =
     (api_request w api method endpoint, [ApiRequest api method endpoint])"

subsection \<open>Python string operations\<close>

text \<open>\<^verbatim>\<open>'%s' % v\<close> for a string or \<open>None\<close>.\<close>

definition fmt_s :: "string option \<Rightarrow> string" where
  "fmt_s v = (case v of None \<Rightarrow> ''None'' | Some s \<Rightarrow> s)"

text \<open>\<^verbatim>\<open>'%d' % i\<close> for an integer.\<close>

definition digit_char :: "nat \<Rightarrow> char" where
  "digit_char d =
     (if d = 0 then CHR ''0'' else if d = 1 then CHR ''1'' else if d = 2 then CHR ''2''
      else if d = 3 then CHR ''3'' else if d = 4 then CHR ''4'' else if d = 5 then CHR ''5''
      else if d = 6 then CHR ''6'' else if d = 7 then CHR ''7'' else if d = 8 then CHR ''8''
      else CHR ''9'')"

fun digits :: "nat \<Rightarrow> string" where
  "digits n = (if n < 10 then [digit_char n] else digits (n div 10) @ [digit_char (n mod 10)])"

declare digits.simps [simp del]

definition fmt_d :: "int \<Rightarrow> string" where
  "fmt_d i = (if i < 0 then CHR ''-'' # digits (nat (- i)) else digits (nat i))"

text \<open>\<^verbatim>\<open>s.split(c)\<close> for a one-character separator: never the empty list.\<close>

fun split_on :: "char \<Rightarrow> string \<Rightarrow> string list" where
  "split_on c [] = [[]]"
| "split_on c (x # xs) =
     (if x = c then [] # split_on c xs
      else (x # hd (split_on c xs)) # tl (split_on c xs))"

text \<open>\<^verbatim>\<open>sep.join(vs)\<close>: every item must be a string.\<close>

fun str_items :: "pyval list \<Rightarrow> string list option" where
  "str_items [] = Some []"
| "str_items (PStr s # vs) = map_option ((#) s) (str_items vs)"
| "str_items (v # vs) = None"

fun intercalate :: "string \<Rightarrow> string list \<Rightarrow> string" where
  "intercalate sep [] = []"
| "intercalate sep [s] = s"
| "intercalate sep (s # t # ts) = s @ sep @ intercalate sep (t # ts)"

definition py_join :: "string \<Rightarrow> pyval list \<Rightarrow> string eff" where
  "py_join sep vs =
     (case str_items vs of
        None \<Rightarrow> raise (TypeError ''sequence item: expected string'')
      | Some ss \<Rightarrow> ret (intercalate sep ss))"

text \<open>\<^verbatim>\<open>v.keys()\<close>: only a dictionary has the attribute.\<close>

definition py_keys :: "pyval \<Rightarrow> pyval eff" where
  "py_keys v =
     (case v of
        PDict kvs \<Rightarrow> ret (PList (map (\<lambda>kv. PStr (fst kv)) kvs))
      | _ \<Rightarrow> raise (AttributeError ''keys''))"

section \<open>Executable discovery\<close>

text \<open>The loop of lines 37--40 over the fallback paths.\<close>

fun first_isfile :: "world \<Rightarrow> string list \<Rightarrow> string option eff" where
  "first_isfile w [] = ret None"
| "first_isfile w (b # bs) =
     bind_eff (os_path_isfile w b) (\<lambda>ex. if ex then ret (Some b) else first_isfile w bs)"

text \<open>\<^verbatim>\<open>_get_chef_client\<close>, lines 34--42.\<close>

definition get_chef_client :: "world \<Rightarrow> string option eff" where
  "get_chef_client w =
     bind_eff (salt_cmd_which w ''chef-client'') (\<lambda>cmd.
       if cmd = None
       then first_isfile w [''/opt/chef/bin/chef-client'', ''/opt/opscode/bin/chef-client'']
       else ret cmd)"

section \<open>The API facade\<close>

text \<open>
  \<^verbatim>\<open>_get_api\<close>, lines 44--51. Reading \<^verbatim>\<open>HAS_CHEF\<close> raises \<open>NameError\<close> when the name is
  unbound; a function that falls off its end returns \<open>None\<close>.
\<close>

definition get_api :: "globals \<Rightarrow> world \<Rightarrow> chef_api option eff" where
  "get_api g w =
     (case HAS_CHEF g of
        None \<Rightarrow> raise (NameError ''HAS_CHEF'')
      | Some has \<Rightarrow>
          if has then
            bind_eff (salt_config_option w ''chef.api.host'' (Some ''localhost'')) (\<lambda>api_host.
            bind_eff (salt_config_option w ''chef.api.port'' (Some ''4000'')) (\<lambda>api_port.
            bind_eff (salt_config_option w ''chef.api.key'' None) (\<lambda>api_key.
            bind_eff (salt_config_option w ''chef.api.user'' None) (\<lambda>api_user.
            bind_eff (chef_ChefAPI w (''http://'' @ fmt_s api_host @ '':'' @ fmt_s api_port)
                        api_key api_user) (\<lambda>api.
            ret (Some api))))))
          else ret None)"

text \<open>\<^verbatim>\<open>_call_api\<close>, lines 54--60.\<close>

definition call_api :: "globals \<Rightarrow> world \<Rightarrow> string \<Rightarrow> string \<Rightarrow> pyval eff" where
  "call_api g w method endpoint =
     bind_eff (get_api g w) (\<lambda>api.
       case api of
         None \<Rightarrow> ret (PBool False)
       | Some a \<Rightarrow> chef_api_request w a method endpoint)"

definition list_nodes :: "globals \<Rightarrow> world \<Rightarrow> pyval eff" where
  "list_nodes g w = bind_eff (call_api g w ''GET'' ''/nodes'') py_keys"

definition list_roles :: "globals \<Rightarrow> world \<Rightarrow> pyval eff" where
  "list_roles g w = bind_eff (call_api g w ''GET'' ''/roles'') py_keys"

definition list_clients :: "globals \<Rightarrow> world \<Rightarrow> pyval eff" where
  "list_clients g w = bind_eff (call_api g w ''GET'' ''/clients'') py_keys"

definition list_data :: "globals \<Rightarrow> world \<Rightarrow> pyval eff" where
  "list_data g w = bind_eff (call_api g w ''GET'' ''/data'') py_keys"

text \<open>
  \<^verbatim>\<open>search\<close>, lines 92--125. \<open>start\<close> is the value after the default \<open>0\<close> has been
  applied; \<open>limit\<close> and \<open>sort_arg\<close> (the parameter \<^verbatim>\<open>sort\<close>) are \<open>None\<close> when not
  supplied.
\<close>

definition search ::
  "globals \<Rightarrow> world \<Rightarrow> string \<Rightarrow> string \<Rightarrow> int \<Rightarrow> int option \<Rightarrow> string option \<Rightarrow> pyval eff" where
  "search g w index query start limit sort_arg =
     (let endpoint = ''/search/'' @ index @ ''?q='' @ query @ ''&start='' @ fmt_d start;
          endpoint = (case limit of None \<Rightarrow> endpoint
                      | Some l \<Rightarrow> endpoint @ ''&rows='' @ fmt_d l);
          endpoint = (case sort_arg of None \<Rightarrow> endpoint
                      | Some s \<Rightarrow> endpoint @ ''&sort='' @ s)
      in call_api g w ''GET'' endpoint)"

definition node :: "globals \<Rightarrow> world \<Rightarrow> string \<Rightarrow> pyval eff" where
  "node g w name = call_api g w ''GET'' (''/nodes/'' @ name)"

definition role :: "globals \<Rightarrow> world \<Rightarrow> string \<Rightarrow> pyval eff" where
  "role g w name = call_api g w ''GET'' (''/roles/'' @ name)"

definition client :: "globals \<Rightarrow> world \<Rightarrow> string \<Rightarrow> pyval eff" where
  "client g w name = call_api g w ''GET'' (''/clients/'' @ name)"

definition data :: "globals \<Rightarrow> world \<Rightarrow> string \<Rightarrow> string option \<Rightarrow> pyval eff" where
  "data g w name item =
     (case item of
        None \<Rightarrow> call_api g w ''GET'' (''/data/'' @ name)
      | Some i \<Rightarrow> call_api g w ''GET'' (''/data/'' @ name @ ''/'' @ i))"

definition delete_node :: "globals \<Rightarrow> world \<Rightarrow> string \<Rightarrow> pyval eff" where
  "delete_node g w name = call_api g w ''DELETE'' (''/nodes/'' @ name)"

definition delete_role :: "globals \<Rightarrow> world \<Rightarrow> string \<Rightarrow> pyval eff" where
  "delete_role g w name = call_api g w ''DELETE'' (''/roles/'' @ name)"

definition delete_client :: "globals \<Rightarrow> world \<Rightarrow> string \<Rightarrow> pyval eff" where
  "delete_client g w name = call_api g w ''DELETE'' (''/clients/'' @ name)"

section \<open>The client-run facade\<close>

text \<open>\<^verbatim>\<open>version\<close>, lines 182--194.\<close>

definition version :: "world \<Rightarrow> pyval eff" where
  "version w =
     bind_eff (get_chef_client w) (\<lambda>cmd.
       case cmd of
         None \<Rightarrow> ret (PStr ''Unable to locate chef-client executable.'')
       | Some c \<Rightarrow>
           try_except
             (bind_eff (salt_cmd_run w (c @ '' -v'')) (\<lambda>out.
                ret (PStr (last (split_on CHR '' '' out)))))
             (ret (PBool False)))"

record run_args =
  force :: pyval
  run_list :: pyval
  key_file :: "string option"
  validation_key :: "string option"
  server :: "string option"
  environment :: "string option"
  log_level :: "string option"
  node_name :: "string option"
  dry_run :: pyval

text \<open>The defaults of the signature, lines 197--205.\<close>

definition run_defaults :: run_args where
  "run_defaults =
     \<lparr>force = PBool False, run_list = PNone, key_file = None, validation_key = None,
      server = None, environment = None, log_level = None, node_name = None,
      dry_run = PNone\<rparr>"

text \<open>
  \<^verbatim>\<open>tempfile.TemporaryFile()\<close>: the global name \<^verbatim>\<open>tempfile\<close> is looked up first. The file
  object is identified by its \<^verbatim>\<open>name\<close> attribute; running out of disk or descriptors is
  not modelled.
\<close>

definition tempfile_TemporaryFile :: "globals \<Rightarrow> world \<Rightarrow> string eff" where
  "tempfile_TemporaryFile g w =
     (if tempfile_bound g then (Inr (tmp_name w), [TmpCreate (tmp_name w)])
      else raise (NameError ''tempfile''))"

definition tmp_write :: "string \<Rightarrow> string \<Rightarrow> unit eff" where
  "tmp_write f s = (Inr (), [TmpWrite f s])"

definition tmp_close :: "string \<Rightarrow> unit eff" where
  "tmp_close f = (Inr (), [TmpClose f])"

text \<open>\<^verbatim>\<open>isinstance(v, list)\<close>\<close>

fun is_list :: "pyval \<Rightarrow> bool" where
  "is_list (PList vs) = True"
| "is_list v = False"

fun list_items :: "pyval \<Rightarrow> pyval list" where
  "list_items (PList vs) = vs"
| "list_items v = []"

text \<open>
  \<^verbatim>\<open>run\<close>, lines 197--325. The local variables \<^verbatim>\<open>cmd\<close> and \<^verbatim>\<open>tmpjson\<close> are rebound by each
  statement in turn.
\<close>

definition run :: "globals \<Rightarrow> world \<Rightarrow> run_args \<Rightarrow> pyval eff" where
  \<open>run g w a =
     bind_eff (get_chef_client w) (\<lambda>located.
     case located of
       None \<Rightarrow> ret (PStr ''Unable to locate chef-client executable.'')
     | Some cmd \<Rightarrow>
     bind_eff
       (if force a = PBool False then
          bind_eff (salt_config_option w ''chef.client.skipfile'' (Some ''/etc/chef/no_chef_run''))
            (\<lambda>skipfile.
          bind_eff (os_path_isfile w (fmt_s skipfile)) (\<lambda>present.
          ret (if present
               then Some (PStr (''Skipfile is present at '' @ fmt_s skipfile @ '', skipping''))
               else None)))
        else ret None) (\<lambda>skipped.
     case skipped of
       Some message \<Rightarrow> ret message
     | None \<Rightarrow>
     bind_eff
       (if is_list (run_list a) then
          bind_eff (tempfile_TemporaryFile g w) (\<lambda>tmpjson.
          bind_eff (py_join '','' (list_items (run_list a))) (\<lambda>joined.
          bind_eff (tmp_write tmpjson (''{"run_list": ['' @ joined @ '']}'')) (\<lambda>_.
          ret (Some tmpjson, cmd @ '' --json-attributes '' @ tmpjson))))
        else ret (None, cmd)) (\<lambda>(tmpjson, cmd).
     bind_eff
       (case key_file a of
          None \<Rightarrow> ret cmd
        | Some k \<Rightarrow>
            bind_eff (os_path_isfile w k) (\<lambda>present.
            ret (if present then cmd @ '' --client_key '' @ k else cmd))) (\<lambda>cmd.
     bind_eff
       (case validation_key a of
          None \<Rightarrow> ret cmd
        | Some k \<Rightarrow>
            bind_eff (os_path_isfile w k) (\<lambda>present.
            ret (if present then cmd @ '' --validation_key '' @ k else cmd))) (\<lambda>cmd.
     let cmd = (case server a of None \<Rightarrow> cmd | Some s \<Rightarrow> cmd @ '' --server '' @ s);
         cmd = (case environment a of None \<Rightarrow> cmd | Some s \<Rightarrow> cmd @ '' --environment '' @ s);
         cmd = (case log_level a of None \<Rightarrow> cmd | Some s \<Rightarrow> cmd @ '' --log_level '' @ s);
         cmd = (case node_name a of None \<Rightarrow> cmd | Some s \<Rightarrow> cmd @ '' --node-name '' @ s);
         cmd = (if dry_run a \<noteq> PNone then cmd @ '' --why-run'' else cmd)
     in
     bind_eff (salt_cmd_run w cmd) (\<lambda>out.
     let rv = PList (map PStr (split_on CHR 0x0A out)) in
     bind_eff (case tmpjson of None \<Rightarrow> ret () | Some f \<Rightarrow> tmp_close f) (\<lambda>_.
     ret rv)))))))\<close>

section \<open>Observations on a trace\<close>

text \<open>The command lines handed to the command-execution facility, in order.\<close>

fun execs :: "event list \<Rightarrow> string list" where
  "execs [] = []"
| "execs (Exec c # es) = c # execs es"
| "execs (e # es) = execs es"

text \<open>The temporary files created, in order.\<close>

fun tmp_created :: "event list \<Rightarrow> string list" where
  "tmp_created [] = []"
| "tmp_created (TmpCreate f # es) = f # tmp_created es"
| "tmp_created (e # es) = tmp_created es"

text \<open>The configuration options read, in order.\<close>

fun config_reads :: "event list \<Rightarrow> string list" where
  "config_reads [] = []"
| "config_reads (ConfigRead k # es) = k # config_reads es"
| "config_reads (e # es) = config_reads es"

text \<open>The REST requests issued (method and endpoint), in order.\<close>

fun api_requests :: "event list \<Rightarrow> (string \<times> string) list" where
  "api_requests [] = []"
| "api_requests (ApiRequest api method endpoint # es) = (method, endpoint) # api_requests es"
| "api_requests (e # es) = api_requests es"

section \<open>Closed forms of the parts of the run operation\<close>

text \<open>
  These are not translations of source functions: they name the value each group of
  statements of \<^verbatim>\<open>run\<close> computes, and the lemmas below prove that \<open>run\<close> computes them.
\<close>

text \<open>The path the skip-file check probes (lines 284--286).\<close>

definition skipfile_path :: "world \<Rightarrow> string" where
  "skipfile_path w =
     (case config w ''chef.client.skipfile'' of
        None \<Rightarrow> ''/etc/chef/no_chef_run''
      | Some v \<Rightarrow> v)"

text \<open>The skip-file check ends the run (lines 283--287).\<close>

definition skip_abort :: "world \<Rightarrow> run_args \<Rightarrow> bool" where
  "skip_abort w a = (force a = PBool False \<and> isfile w (skipfile_path w))"

definition skip_events :: "world \<Rightarrow> run_args \<Rightarrow> event list" where
  "skip_events w a =
     (if force a = PBool False
      then [ConfigRead ''chef.client.skipfile'', IsFile (skipfile_path w)]
      else [])"

text \<open>The probes of lines 294--300.\<close>

definition key_probes :: "run_args \<Rightarrow> event list" where
  "key_probes a =
     (case key_file a of None \<Rightarrow> [] | Some k \<Rightarrow> [IsFile k]) @
     (case validation_key a of None \<Rightarrow> [] | Some k \<Rightarrow> [IsFile k])"

text \<open>What lines 294--315 append to the command string.\<close>

definition trailing_flags :: "world \<Rightarrow> run_args \<Rightarrow> string" where
  "trailing_flags w a =
     (case key_file a of None \<Rightarrow> []
      | Some k \<Rightarrow> if isfile w k then '' --client_key '' @ k else []) @
     (case validation_key a of None \<Rightarrow> []
      | Some k \<Rightarrow> if isfile w k then '' --validation_key '' @ k else []) @
     (case server a of None \<Rightarrow> [] | Some s \<Rightarrow> '' --server '' @ s) @
     (case environment a of None \<Rightarrow> [] | Some s \<Rightarrow> '' --environment '' @ s) @
     (case log_level a of None \<Rightarrow> [] | Some s \<Rightarrow> '' --log_level '' @ s) @
     (case node_name a of None \<Rightarrow> [] | Some s \<Rightarrow> '' --node-name '' @ s) @
     (if dry_run a \<noteq> PNone then '' --why-run'' else [])"

text \<open>Lines 318--325: execute, split the output into lines, close the file if there is one.\<close>

definition exec_phase :: "world \<Rightarrow> string option \<Rightarrow> string \<Rightarrow> pyval eff" where
  "exec_phase w tmpjson cmd =
     (case cmd_run w cmd of
        Inl e \<Rightarrow> (Inl e, [Exec cmd])
      | Inr out \<Rightarrow>
          (Inr (PList (map PStr (split_on CHR 0x0A out))),
           Exec cmd # (case tmpjson of None \<Rightarrow> [] | Some f \<Rightarrow> [TmpClose f])))"

section \<open>The specification's reading of the version token\<close>

text \<open>
  The specification says \<^verbatim>\<open>version\<close> returns "the last whitespace-delimited token" of the
  output. Whitespace is what Python's \<^verbatim>\<open>str.split()\<close> treats as such; a token is a
  maximal run of characters that are not whitespace.
\<close>

definition py_whitespace :: "char \<Rightarrow> bool" where
  "py_whitespace c = (c \<in> set [CHR '' '', CHR 0x09, CHR 0x0A, CHR 0x0B, CHR 0x0C, CHR 0x0D])"

function ws_tokens :: "string \<Rightarrow> string list" where
  "ws_tokens [] = []"
| "ws_tokens (x # xs) =
     (if py_whitespace x then ws_tokens xs
      else (x # takeWhile (\<lambda>c. \<not> py_whitespace c) xs) #
           ws_tokens (dropWhile (\<lambda>c. \<not> py_whitespace c) xs))"
  by pat_completeness auto
termination
  by (relation "measure length") (auto simp: le_imp_less_Suc length_dropWhile_le)

definition last_ws_token :: "string \<Rightarrow> string option" where
  "last_ws_token s = (case rev (ws_tokens s) of [] \<Rightarrow> None | t # ts \<Rightarrow> Some t)"

section \<open>Example hosts\<close>

text \<open>
  A host with \<^verbatim>\<open>chef-client\<close> on the system path, no skip-file, a client that prints its
  version whatever it is asked, and a chef server with no objects. \<^verbatim>\<open><fdopen>\<close> is the
  \<^verbatim>\<open>name\<close> CPython 2 gives the object \<^verbatim>\<open>TemporaryFile()\<close> returns on POSIX.
\<close>

definition demo_host :: world where
  "demo_host =
     \<lparr>cmd_which = (\<lambda>name. if name = ''chef-client'' then Some ''/usr/bin/chef-client'' else None),
      isfile = (\<lambda>p. False),
      config = (\<lambda>k. None),
      cmd_run = (\<lambda>c. Inr ''Chef: 11.4.0''),
      tmp_name = ''<fdopen>'',
      chef_new = (\<lambda>url key user. None),
      api_request = (\<lambda>api method endpoint. Inr (PDict []))\<rparr>"

text \<open>The same host with the default skip-file in place.\<close>

definition skipfile_host :: world where
  "skipfile_host = demo_host\<lparr>isfile := (\<lambda>p. p = ''/etc/chef/no_chef_run'')\<rparr>"

text \<open>The same host where executing a command raises.\<close>

definition failing_host :: world where
  "failing_host = demo_host\<lparr>cmd_run := (\<lambda>c. Inl (Failure ''Unable to run command''))\<rparr>"

text \<open>A host whose client separates the label and the number with a tab.\<close>

definition tab_host :: world where
  "tab_host = demo_host\<lparr>cmd_run := (\<lambda>c. Inr (''Chef:'' @ [CHR 0x09] @ ''11.4.0''))\<rparr>"

text \<open>A host with the client only at the second fallback path.\<close>

definition opscode_host :: world where
  "opscode_host =
     demo_host\<lparr>cmd_which := (\<lambda>name. None),
                isfile := (\<lambda>p. p = ''/opt/opscode/bin/chef-client'')\<rparr>"

text \<open>A host without the client anywhere.\<close>

definition bare_host :: world where
  "bare_host = demo_host\<lparr>cmd_which := (\<lambda>name. None)\<rparr>"

section \<open>Basic facts\<close>

subsection \<open>Observations distribute over concatenation\<close>

lemma execs_append [simp]: "execs (xs @ ys) = execs xs @ execs ys"
  by (induction xs rule: execs.induct) simp_all

lemma tmp_created_append [simp]: "tmp_created (xs @ ys) = tmp_created xs @ tmp_created ys"
  by (induction xs rule: tmp_created.induct) simp_all

lemma config_reads_append [simp]: "config_reads (xs @ ys) = config_reads xs @ config_reads ys"
  by (induction xs rule: config_reads.induct) simp_all

lemma api_requests_append [simp]: "api_requests (xs @ ys) = api_requests xs @ api_requests ys"
  by (induction xs rule: api_requests.induct) simp_all

subsection \<open>Sequencing\<close>

lemma bind_eff_Inr [simp]: "bind_eff (Inr x, es) f = (fst (f x), es @ snd (f x))"
  by (simp add: bind_eff_def)

lemma bind_eff_Inl [simp]: "bind_eff (Inl e, es) f = (Inl e, es)"
  by (simp add: bind_eff_def)

lemma bind_eff_ret [simp]: "bind_eff (ret x) f = f x"
  by (simp add: bind_eff_def ret_def)

lemma bind_eff_raise [simp]: "bind_eff (raise e) f = raise e"
  by (simp add: bind_eff_def raise_def)

lemma bind_eff_fst: "fst m = Inr x \<Longrightarrow> bind_eff m f = (fst (f x), snd m @ snd (f x))"
  by (simp add: bind_eff_def)

subsection \<open>Splitting a string\<close>

lemma split_on_not_Nil [simp]: "split_on c s \<noteq> []"
  by (induction s) simp_all

lemma split_on_no_sep: "c \<notin> set s \<Longrightarrow> split_on c s = [s]"
  by (induction s) auto

lemma tl_split_on_sep: "c \<in> set s \<Longrightarrow> tl (split_on c s) \<noteq> []"
  by (induction s) auto

lemma last_split_on_sep: "last (split_on c (pre @ c # r)) = last (split_on c r)"
proof (induction pre)
  case Nil
  then show ?case by simp
next
  case (Cons x pre)
  have "tl (split_on c (pre @ c # r)) \<noteq> []"
    by (rule tl_split_on_sep) simp
  with Cons show ?case
    by (simp add: last_tl)
qed

text \<open>The last piece is what follows the last separator.\<close>

lemma last_split_on: "last (split_on c s) = rev (takeWhile (\<lambda>x. x \<noteq> c) (rev s))"
proof (cases "c \<in> set s")
  case False
  then have tw: "takeWhile (\<lambda>x. x \<noteq> c) (rev s) = rev s"
    by (auto simp: takeWhile_eq_all_conv)
  show ?thesis
    unfolding tw using False by (simp add: split_on_no_sep)
next
  case True
  then obtain pre r where s: "s = pre @ c # r" and r: "c \<notin> set r"
    using split_list_last by fastforce
  have "takeWhile (\<lambda>x. x \<noteq> c) (rev r @ c # rev pre) =
          rev r @ takeWhile (\<lambda>x. x \<noteq> c) (c # rev pre)"
    using r by (intro takeWhile_append2) auto
  then have tw: "takeWhile (\<lambda>x. x \<noteq> c) (rev r @ c # rev pre) = rev r"
    by simp
  show ?thesis
    using r by (simp add: s tw last_split_on_sep split_on_no_sep)
qed

lemma fmt_d_0: "fmt_d 0 = ''0''"
  by (simp add: fmt_d_def digits.simps digit_char_def)

subsection \<open>Executable discovery\<close>

lemma get_chef_client_eq:
  "get_chef_client w =
     (Inr (case cmd_which w ''chef-client'' of
             Some p \<Rightarrow> Some p
           | None \<Rightarrow>
               if isfile w ''/opt/chef/bin/chef-client'' then Some ''/opt/chef/bin/chef-client''
               else if isfile w ''/opt/opscode/bin/chef-client''
                    then Some ''/opt/opscode/bin/chef-client''
                    else None),
      Which ''chef-client'' #
      (case cmd_which w ''chef-client'' of
         Some p \<Rightarrow> []
       | None \<Rightarrow>
           IsFile ''/opt/chef/bin/chef-client'' #
           (if isfile w ''/opt/chef/bin/chef-client'' then []
            else [IsFile ''/opt/opscode/bin/chef-client''])))"
  by (simp add: get_chef_client_def salt_cmd_which_def os_path_isfile_def ret_def
           split: option.splits)

lemma get_chef_client_total: "\<exists>r. fst (get_chef_client w) = Inr r"
  by (simp add: get_chef_client_eq)

lemma execs_get_chef_client [simp]: "execs (snd (get_chef_client w)) = []"
  by (simp add: get_chef_client_eq split: option.splits)

lemma tmp_created_get_chef_client [simp]: "tmp_created (snd (get_chef_client w)) = []"
  by (simp add: get_chef_client_eq split: option.splits)

lemma config_reads_get_chef_client [simp]: "config_reads (snd (get_chef_client w)) = []"
  by (simp add: get_chef_client_eq split: option.splits)

lemma get_chef_client_hosts:
  "get_chef_client demo_host = (Inr (Some ''/usr/bin/chef-client''), [Which ''chef-client''])"
  "get_chef_client skipfile_host = (Inr (Some ''/usr/bin/chef-client''), [Which ''chef-client''])"
  "get_chef_client failing_host = (Inr (Some ''/usr/bin/chef-client''), [Which ''chef-client''])"
  "get_chef_client tab_host = (Inr (Some ''/usr/bin/chef-client''), [Which ''chef-client''])"
  by (simp_all add: get_chef_client_eq demo_host_def skipfile_host_def failing_host_def
        tab_host_def)

lemma get_chef_client_opscode_host:
  "get_chef_client opscode_host =
     (Inr (Some ''/opt/opscode/bin/chef-client''),
      [Which ''chef-client'', IsFile ''/opt/chef/bin/chef-client'',
       IsFile ''/opt/opscode/bin/chef-client''])"
  by (simp add: get_chef_client_eq opscode_host_def demo_host_def)

section \<open>What the run operation computes\<close>

subsection \<open>The statements one by one\<close>

lemma opt_flag:
  "(case v of None \<Rightarrow> cmd | Some s \<Rightarrow> cmd @ fl @ s) =
   cmd @ (case v of None \<Rightarrow> [] | Some s \<Rightarrow> fl @ s)"
  by (cases v) simp_all

lemma if_flag: "(if b then cmd @ fl else cmd) = cmd @ (if b then fl else [])"
  by simp

lemma file_flag:
  "(case v of None \<Rightarrow> ret cmd
    | Some k \<Rightarrow> bind_eff (os_path_isfile w k)
                 (\<lambda>present. ret (if present then cmd @ fl @ k else cmd)))
   = (Inr (cmd @ (case v of None \<Rightarrow> [] | Some k \<Rightarrow> if isfile w k then fl @ k else [])),
      (case v of None \<Rightarrow> [] | Some k \<Rightarrow> [IsFile k]))"
  by (cases v) (simp_all add: os_path_isfile_def ret_def)

lemma close_step:
  "(case t of None \<Rightarrow> ret () | Some f \<Rightarrow> tmp_close f) =
   (Inr (), case t of None \<Rightarrow> [] | Some f \<Rightarrow> [TmpClose f])"
  by (cases t) (simp_all add: ret_def tmp_close_def)

lemma exec_step:
  "bind_eff (salt_cmd_run w cmd) f =
     (case cmd_run w cmd of
        Inl e \<Rightarrow> (Inl e, [Exec cmd])
      | Inr out \<Rightarrow> (fst (f out), Exec cmd # snd (f out)))"
  by (simp add: salt_cmd_run_def bind_eff_def split: sum.splits)

lemma skip_step:
  "bind_eff (salt_config_option w ''chef.client.skipfile'' (Some ''/etc/chef/no_chef_run''))
     (\<lambda>skipfile.
        bind_eff (os_path_isfile w (fmt_s skipfile)) (\<lambda>present.
        ret (if present
             then Some (PStr (''Skipfile is present at '' @ fmt_s skipfile @ '', skipping''))
             else None)))
   = (Inr (if isfile w (skipfile_path w)
           then Some (PStr (''Skipfile is present at '' @ skipfile_path w @ '', skipping''))
           else None),
      [ConfigRead ''chef.client.skipfile'', IsFile (skipfile_path w)])"
  by (simp add: salt_config_option_def os_path_isfile_def ret_def fmt_s_def skipfile_path_def
           split: option.splits)

lemmas run_steps =
  bind_eff_fst opt_flag if_flag file_flag close_step exec_step skip_step Let_def

subsection \<open>The six ways through the operation\<close>

lemma run_not_located:
  assumes "fst (get_chef_client w) = Inr None"
  shows "run g w a =
           (Inr (PStr ''Unable to locate chef-client executable.''), snd (get_chef_client w))"
  unfolding run_def using assms by (simp add: bind_eff_fst ret_def)

lemma run_skipped:
  assumes "fst (get_chef_client w) = Inr (Some c)" "skip_abort w a"
  shows "run g w a =
           (Inr (PStr (''Skipfile is present at '' @ skipfile_path w @ '', skipping'')),
            snd (get_chef_client w) @
            [ConfigRead ''chef.client.skipfile'', IsFile (skipfile_path w)])"
  unfolding run_def using assms
  by (simp add: bind_eff_fst skip_step skip_abort_def) (simp_all add: ret_def)

lemma run_no_list:
  assumes "fst (get_chef_client w) = Inr (Some c)"
      and "\<not> skip_abort w a"
      and "\<not> is_list (run_list a)"
  shows "run g w a =
           (fst (exec_phase w None (c @ trailing_flags w a)),
            snd (get_chef_client w) @ skip_events w a @ key_probes a @
            snd (exec_phase w None (c @ trailing_flags w a)))"
  unfolding run_def using assms
  by (simp add: run_steps trailing_flags_def key_probes_def skip_events_def skip_abort_def
        exec_phase_def split: sum.splits)
     (simp_all add: ret_def)

lemma run_list_unbound:
  assumes "fst (get_chef_client w) = Inr (Some c)"
      and "\<not> skip_abort w a"
      and "is_list (run_list a)" "\<not> tempfile_bound g"
  shows "run g w a =
           (Inl (NameError ''tempfile''), snd (get_chef_client w) @ skip_events w a)"
  unfolding run_def using assms
  by (simp add: run_steps skip_events_def skip_abort_def tempfile_TemporaryFile_def)
     (simp_all add: raise_def ret_def)

lemma run_list_bad_item:
  assumes "fst (get_chef_client w) = Inr (Some c)"
      and "\<not> skip_abort w a"
      and "is_list (run_list a)" "tempfile_bound g"
      and "str_items (list_items (run_list a)) = None"
  shows "run g w a =
           (Inl (TypeError ''sequence item: expected string''),
            snd (get_chef_client w) @ skip_events w a @ [TmpCreate (tmp_name w)])"
  unfolding run_def using assms
  by (simp add: run_steps skip_events_def skip_abort_def tempfile_TemporaryFile_def py_join_def)
     (simp_all add: raise_def ret_def)

lemma run_list_ok:
  assumes "fst (get_chef_client w) = Inr (Some c)"
      and "\<not> skip_abort w a"
      and "is_list (run_list a)" "tempfile_bound g"
      and "str_items (list_items (run_list a)) = Some ss"
  shows \<open>run g w a =
           (fst (exec_phase w (Some (tmp_name w))
                   (c @ '' --json-attributes '' @ tmp_name w @ trailing_flags w a)),
            snd (get_chef_client w) @ skip_events w a @
            [TmpCreate (tmp_name w),
             TmpWrite (tmp_name w) (''{"run_list": ['' @ intercalate '','' ss @ '']}'')] @
            key_probes a @
            snd (exec_phase w (Some (tmp_name w))
                   (c @ '' --json-attributes '' @ tmp_name w @ trailing_flags w a)))\<close>
  unfolding run_def using assms
  by (simp add: run_steps trailing_flags_def key_probes_def skip_events_def skip_abort_def
        exec_phase_def tempfile_TemporaryFile_def py_join_def tmp_write_def split: sum.splits)
     (simp_all add: ret_def)

text \<open>Every invocation takes exactly one of them.\<close>

lemma run_cases:
  obtains
    (not_located) "fst (get_chef_client w) = Inr None"
  | (skipped) c where "fst (get_chef_client w) = Inr (Some c)" "skip_abort w a"
  | (no_list) c where "fst (get_chef_client w) = Inr (Some c)"
      "\<not> skip_abort w a" "\<not> is_list (run_list a)"
  | (unbound) c where "fst (get_chef_client w) = Inr (Some c)"
      "\<not> skip_abort w a" "is_list (run_list a)" "\<not> tempfile_bound g"
  | (bad_item) c where "fst (get_chef_client w) = Inr (Some c)"
      "\<not> skip_abort w a" "is_list (run_list a)" "tempfile_bound g"
      "str_items (list_items (run_list a)) = None"
  | (ok) c ss where "fst (get_chef_client w) = Inr (Some c)"
      "\<not> skip_abort w a" "is_list (run_list a)" "tempfile_bound g"
      "str_items (list_items (run_list a)) = Some ss"
proof -
  obtain r where r: "fst (get_chef_client w) = Inr r"
    using get_chef_client_total by blast
  show thesis
  proof (cases r)
    case None
    with r show ?thesis using not_located by simp
  next
    case (Some c)
    with r have c: "fst (get_chef_client w) = Inr (Some c)" by simp
    show ?thesis
    proof (cases "skip_abort w a")
      case True
      with c show ?thesis using skipped by blast
    next
      case False
      note ns = this
      show ?thesis
      proof (cases "is_list (run_list a)")
        case False
        with c ns show ?thesis using no_list by blast
      next
        case True
        note l = this
        show ?thesis
        proof (cases "tempfile_bound g")
          case False
          with c ns l show ?thesis using unbound by blast
        next
          case True
          with c ns l show ?thesis using bad_item ok
            by (cases "str_items (list_items (run_list a))") blast+
        qed
      qed
    qed
  qed
qed

subsection \<open>Observations on the parts\<close>

lemma execs_exec_phase [simp]: "execs (snd (exec_phase w t cmd)) = [cmd]"
  by (simp add: exec_phase_def split: sum.splits option.splits)

lemma tmp_created_exec_phase [simp]: "tmp_created (snd (exec_phase w t cmd)) = []"
  by (simp add: exec_phase_def split: sum.splits option.splits)

lemma config_reads_exec_phase [simp]: "config_reads (snd (exec_phase w t cmd)) = []"
  by (simp add: exec_phase_def split: sum.splits option.splits)

lemma execs_skip_events [simp]: "execs (skip_events w a) = []"
  by (simp add: skip_events_def)

lemma tmp_created_skip_events [simp]: "tmp_created (skip_events w a) = []"
  by (simp add: skip_events_def)

lemma execs_key_probes [simp]: "execs (key_probes a) = []"
  by (simp add: key_probes_def split: option.splits)

lemma tmp_created_key_probes [simp]: "tmp_created (key_probes a) = []"
  by (simp add: key_probes_def split: option.splits)

lemma config_reads_key_probes [simp]: "config_reads (key_probes a) = []"
  by (simp add: key_probes_def split: option.splits)

lemma skip_abort_dry_run [simp]: "skip_abort w (a\<lparr>dry_run := v\<rparr>) = skip_abort w a"
  by (simp add: skip_abort_def)

lemma skip_events_dry_run [simp]: "skip_events w (a\<lparr>dry_run := v\<rparr>) = skip_events w a"
  by (simp add: skip_events_def)

lemma key_probes_dry_run [simp]: "key_probes (a\<lparr>dry_run := v\<rparr>) = key_probes a"
  by (simp add: key_probes_def)

lemma trailing_flags_dry_run:
  "v \<noteq> PNone \<Longrightarrow>
   trailing_flags w (a\<lparr>dry_run := v\<rparr>) =
   trailing_flags w (a\<lparr>dry_run := PNone\<rparr>) @ '' --why-run''"
  by (simp add: trailing_flags_def)

section \<open>The API facade without and with a client\<close>

lemma get_api_unbound:
  "HAS_CHEF g = None \<Longrightarrow> get_api g w = (Inl (NameError ''HAS_CHEF''), [])"
  by (simp add: get_api_def raise_def)

lemma get_api_no_library: "HAS_CHEF g = Some False \<Longrightarrow> get_api g w = (Inr None, [])"
  by (simp add: get_api_def ret_def)

lemma call_api_unbound:
  "HAS_CHEF g = None \<Longrightarrow> call_api g w method endpoint = (Inl (NameError ''HAS_CHEF''), [])"
  by (simp add: call_api_def get_api_unbound)

lemma call_api_no_client:
  "HAS_CHEF g = Some False \<Longrightarrow> call_api g w method endpoint = (Inr (PBool False), [])"
  by (simp add: call_api_def get_api_no_library ret_def)

lemmas facade_defs =
  list_nodes_def list_roles_def list_clients_def list_data_def search_def node_def role_def
  client_def data_def delete_node_def delete_role_def delete_client_def

text \<open>
  The module never binds \<^verbatim>\<open>HAS_CHEF\<close> to \<open>False\<close>: after loading, the name is bound to
  \<open>True\<close> or not at all. So \<^verbatim>\<open>_get_api\<close> never returns \<open>None\<close>.
\<close>

lemma module_load_HAS_CHEF: "HAS_CHEF (module_load b) \<noteq> Some False"
  by (simp add: module_load_def)

text \<open>
  \<^bold>\<open>C1\<close>. The claim: when the chef library is unavailable every operation of the API
  facade returns \<open>False\<close> and never raises. In the module as it loads without the
  library, each of the twelve operations raises \<open>NameError\<close> on \<^verbatim>\<open>HAS_CHEF\<close> before
  anything else happens.
\<close>

theorem api_facade_raises_when_chef_missing:
  "list_nodes (module_load False) w = (Inl (NameError ''HAS_CHEF''), []) \<and>
   list_roles (module_load False) w = (Inl (NameError ''HAS_CHEF''), []) \<and>
   list_clients (module_load False) w = (Inl (NameError ''HAS_CHEF''), []) \<and>
   list_data (module_load False) w = (Inl (NameError ''HAS_CHEF''), []) \<and>
   search (module_load False) w index query start limit sort_arg =
     (Inl (NameError ''HAS_CHEF''), []) \<and>
   node (module_load False) w name = (Inl (NameError ''HAS_CHEF''), []) \<and>
   role (module_load False) w name = (Inl (NameError ''HAS_CHEF''), []) \<and>
   client (module_load False) w name = (Inl (NameError ''HAS_CHEF''), []) \<and>
   data (module_load False) w name item = (Inl (NameError ''HAS_CHEF''), []) \<and>
   delete_node (module_load False) w name = (Inl (NameError ''HAS_CHEF''), []) \<and>
   delete_role (module_load False) w name = (Inl (NameError ''HAS_CHEF''), []) \<and>
   delete_client (module_load False) w name = (Inl (NameError ''HAS_CHEF''), [])"
  by (simp add: facade_defs call_api_unbound module_load_def Let_def split: option.splits)

text \<open>
  In a namespace where \<^verbatim>\<open>HAS_CHEF\<close> has been bound to \<open>False\<close>, so that \<^verbatim>\<open>_get_api\<close> does
  return \<open>None\<close>, the four listing operations call \<^verbatim>\<open>.keys()\<close> on the \<open>False\<close> that
  \<^verbatim>\<open>_call_api\<close> returns and raise; the other eight return \<open>False\<close>.
\<close>

lemma list_operations_without_client:
  assumes "HAS_CHEF g = Some False"
  shows "list_nodes g w = (Inl (AttributeError ''keys''), [])"
    and "list_roles g w = (Inl (AttributeError ''keys''), [])"
    and "list_clients g w = (Inl (AttributeError ''keys''), [])"
    and "list_data g w = (Inl (AttributeError ''keys''), [])"
  using assms by (simp_all add: facade_defs call_api_no_client py_keys_def raise_def)

lemma object_operations_without_client:
  assumes "HAS_CHEF g = Some False"
  shows "search g w index query start limit sort_arg = (Inr (PBool False), [])"
    and "node g w name = (Inr (PBool False), [])"
    and "role g w name = (Inr (PBool False), [])"
    and "client g w name = (Inr (PBool False), [])"
    and "data g w name item = (Inr (PBool False), [])"
    and "delete_node g w name = (Inr (PBool False), [])"
    and "delete_role g w name = (Inr (PBool False), [])"
    and "delete_client g w name = (Inr (PBool False), [])"
  using assms by (simp_all add: facade_defs call_api_no_client Let_def split: option.splits)

lemma api_requests_get_api [simp]: "api_requests (snd (get_api g w)) = []"
  by (simp add: get_api_def raise_def ret_def salt_config_option_def chef_ChefAPI_def
        split: option.splits)

lemma api_requests_call_api:
  assumes "fst (get_api g w) = Inr (Some api)"
  shows "api_requests (snd (call_api g w method endpoint)) = [(method, endpoint)]"
  using assms by (simp add: call_api_def bind_eff_fst chef_api_request_def)

text \<open>
  \<^bold>\<open>C4\<close>. Once the REST client has been constructed, \<^verbatim>\<open>search(index, query)\<close> with the
  defaults issues exactly one request, a GET to \<^verbatim>\<open>/search/{index}?q={query}&start=0\<close>; in
  general the single request is a GET whose endpoint carries \<^verbatim>\<open>q\<close>, then \<^verbatim>\<open>start\<close>, then
  \<^verbatim>\<open>rows\<close> only if a limit was supplied, then \<^verbatim>\<open>sort\<close> only if a sort was supplied.
\<close>

theorem search_request_endpoint:
  assumes "fst (get_api g w) = Inr (Some api)"
  shows "api_requests (snd (search g w index query 0 None None)) =
           [(''GET'', ''/search/'' @ index @ ''?q='' @ query @ ''&start=0'')] \<and>
         api_requests (snd (search g w index query start limit sort_arg)) =
           [(''GET'', ''/search/'' @ index @ ''?q='' @ query @ ''&start='' @ fmt_d start @
               (case limit of None \<Rightarrow> [] | Some l \<Rightarrow> ''&rows='' @ fmt_d l) @
               (case sort_arg of None \<Rightarrow> [] | Some s \<Rightarrow> ''&sort='' @ s))]"
  using assms
  by (simp add: search_def Let_def api_requests_call_api fmt_d_0 split: option.splits)

text \<open>
  Witness for \<^bold>\<open>C4\<close>: on the example host with the library present, the default search and
  the search of the specification's third testable property.
\<close>

theorem search_request_endpoint_witness:
  "fst (get_api (module_load True) demo_host) =
     Inr (Some (ChefAPI ''http://localhost:4000'' None None)) \<and>
   api_requests (snd (search (module_load True) demo_host ''node'' ''role:web'' 0 None None)) =
     [(''GET'', ''/search/node?q=role:web&start=0'')] \<and>
   api_requests (snd (search (module_load True) demo_host ''node'' ''role:web'' 5 (Some 10)
                        (Some ''name DESC''))) =
     [(''GET'', ''/search/node?q=role:web&start=5&rows=10&sort=name DESC'')]"
proof -
  have h: "fst (get_api (module_load True) demo_host) =
             Inr (Some (ChefAPI ''http://localhost:4000'' None None))"
    by (simp add: get_api_def module_load_def demo_host_def salt_config_option_def
          chef_ChefAPI_def fmt_s_def ret_def)
  have d5: "fmt_d 5 = ''5''" and d10: "fmt_d 10 = ''10''"
    by (simp_all add: fmt_d_def digits.simps digit_char_def)
  show ?thesis
    using h search_request_endpoint
            [OF h, of "''node''" "''role:web''" 5 "Some 10" "Some ''name DESC''"]
    by (simp add: d5 d10)
qed

section \<open>Executable discovery and the version operation\<close>

text \<open>
  \<^bold>\<open>C6\<close>. Executable discovery returns the result of the system-path lookup for
  \<^verbatim>\<open>chef-client\<close> when there is one; otherwise the first of \<^verbatim>\<open>/opt/chef/bin/chef-client\<close>
  and \<^verbatim>\<open>/opt/opscode/bin/chef-client\<close>, probed in that order, that is a file; otherwise
  \<open>None\<close>. The second path is probed only when the first is not a file, and neither is
  probed when the lookup succeeded.
\<close>

theorem get_chef_client_discovery:
  "fst (get_chef_client w) =
     Inr (case cmd_which w ''chef-client'' of
            Some p \<Rightarrow> Some p
          | None \<Rightarrow>
              if isfile w ''/opt/chef/bin/chef-client'' then Some ''/opt/chef/bin/chef-client''
              else if isfile w ''/opt/opscode/bin/chef-client''
                   then Some ''/opt/opscode/bin/chef-client''
                   else None) \<and>
   snd (get_chef_client w) =
     Which ''chef-client'' #
     (case cmd_which w ''chef-client'' of
        Some p \<Rightarrow> []
      | None \<Rightarrow>
          IsFile ''/opt/chef/bin/chef-client'' #
          (if isfile w ''/opt/chef/bin/chef-client'' then []
           else [IsFile ''/opt/opscode/bin/chef-client'']))"
  by (simp add: get_chef_client_eq)

lemma version_not_located:
  assumes "fst (get_chef_client w) = Inr None"
  shows "version w =
           (Inr (PStr ''Unable to locate chef-client executable.''), snd (get_chef_client w))"
  unfolding version_def using assms by (simp add: bind_eff_fst) (simp_all add: ret_def)

lemma version_located:
  assumes "fst (get_chef_client w) = Inr (Some c)"
  shows "version w =
     (case cmd_run w (c @ '' -v'') of
        Inl e \<Rightarrow> Inr (PBool False)
      | Inr out \<Rightarrow> Inr (PStr (last (split_on CHR '' '' out))),
      snd (get_chef_client w) @ [Exec (c @ '' -v'')])"
  unfolding version_def using assms
  by (simp add: bind_eff_fst exec_step try_except_def ret_def split: sum.splits)

text \<open>
  Counterexample for \<^bold>\<open>C7\<close>: the client prints \<^verbatim>\<open>Chef:\<close>, a tab and \<^verbatim>\<open>11.4.0\<close>. The last
  whitespace-delimited token of that output is \<^verbatim>\<open>11.4.0\<close>; \<^verbatim>\<open>version\<close> returns the whole
  output, since it splits at spaces only.
\<close>

theorem version_tab_output_counterexample:
  "cmd_run tab_host ''/usr/bin/chef-client -v'' = Inr (''Chef:'' @ [CHR 0x09] @ ''11.4.0'') \<and>
   last_ws_token (''Chef:'' @ [CHR 0x09] @ ''11.4.0'') = Some ''11.4.0'' \<and>
   fst (version tab_host) = Inr (PStr (''Chef:'' @ [CHR 0x09] @ ''11.4.0''))"
proof -
  have g: "fst (get_chef_client tab_host) = Inr (Some ''/usr/bin/chef-client'')"
    by (simp add: get_chef_client_hosts)
  have t: "last_ws_token (''Chef:'' @ [CHR 0x09] @ ''11.4.0'') = Some ''11.4.0''"
    by code_simp
  show ?thesis
    using t by (simp add: version_located [OF g]) (simp add: tab_host_def demo_host_def)
qed

text \<open>
  \<^bold>\<open>C7\<close>, amended. When the executable is absent, \<^verbatim>\<open>version\<close> returns the literal
  \<^verbatim>\<open>Unable to locate chef-client executable.\<close>; when it is located and executing it with
  \<^verbatim>\<open>-v\<close> returns output, \<^verbatim>\<open>version\<close> returns what follows the last space character of the
  output (the whole output when it has no space); when executing it raises, \<^verbatim>\<open>version\<close>
  returns \<open>False\<close>.
\<close>

theorem version_result:
  "(fst (get_chef_client w) = Inr None \<longrightarrow>
      fst (version w) = Inr (PStr ''Unable to locate chef-client executable.'')) \<and>
   (fst (get_chef_client w) = Inr (Some c) \<and> cmd_run w (c @ '' -v'') = Inr out \<longrightarrow>
      fst (version w) = Inr (PStr (rev (takeWhile (\<lambda>x. x \<noteq> CHR '' '') (rev out))))) \<and>
   (fst (get_chef_client w) = Inr (Some c) \<and> cmd_run w (c @ '' -v'') = Inl e \<longrightarrow>
      fst (version w) = Inr (PBool False))"
  by (simp add: version_not_located version_located last_split_on)

text \<open>
  Witness for \<^bold>\<open>C7\<close>: a host without the client, a host whose client prints
  \<^verbatim>\<open>Chef: 11.4.0\<close>, and a host where executing the client raises.
\<close>

theorem version_result_witness:
  "fst (get_chef_client bare_host) = Inr None \<and>
   fst (version bare_host) = Inr (PStr ''Unable to locate chef-client executable.'') \<and>
   fst (get_chef_client demo_host) = Inr (Some ''/usr/bin/chef-client'') \<and>
   cmd_run demo_host ''/usr/bin/chef-client -v'' = Inr ''Chef: 11.4.0'' \<and>
   fst (version demo_host) = Inr (PStr ''11.4.0'') \<and>
   fst (get_chef_client failing_host) = Inr (Some ''/usr/bin/chef-client'') \<and>
   cmd_run failing_host ''/usr/bin/chef-client -v'' = Inl (Failure ''Unable to run command'') \<and>
   fst (version failing_host) = Inr (PBool False)"
proof -
  have b: "fst (get_chef_client bare_host) = Inr None"
    by (simp add: get_chef_client_eq bare_host_def demo_host_def)
  have d: "fst (get_chef_client demo_host) = Inr (Some ''/usr/bin/chef-client'')"
    and f: "fst (get_chef_client failing_host) = Inr (Some ''/usr/bin/chef-client'')"
    by (simp_all add: get_chef_client_hosts)
  have rd: "cmd_run demo_host (''/usr/bin/chef-client'' @ '' -v'') = Inr ''Chef: 11.4.0''"
    by (simp add: demo_host_def)
  have rf: "cmd_run failing_host (''/usr/bin/chef-client'' @ '' -v'') =
              Inl (Failure ''Unable to run command'')"
    by (simp add: failing_host_def demo_host_def)
  show ?thesis
    using b d f rd rf
      version_result [of bare_host]
      version_result [of demo_host "''/usr/bin/chef-client''" "''Chef: 11.4.0''"]
      version_result [of failing_host "''/usr/bin/chef-client''" _
                        "Failure ''Unable to run command''"]
    by simp
qed

section \<open>The run operation\<close>

text \<open>
  \<^bold>\<open>C2\<close>. The claim: \<^verbatim>\<open>run(run_list=["role[global]"])\<close> creates one temporary file holding
  the JSON text, passes it to the client and removes it. On a host with the client on the
  path and no skip-file, the module as loaded raises \<open>NameError\<close> at
  \<^verbatim>\<open>tempfile.TemporaryFile()\<close>: no file is created and no command is executed.
\<close>

theorem run_with_run_list_raises_name_error:
  "run (module_load True) demo_host (run_defaults\<lparr>run_list := PList [PStr ''role[global]'']\<rparr>) =
     (Inl (NameError ''tempfile''),
      [Which ''chef-client'', ConfigRead ''chef.client.skipfile'',
       IsFile ''/etc/chef/no_chef_run''])"
proof -
  have "fst (get_chef_client demo_host) = Inr (Some ''/usr/bin/chef-client'')"
    by (simp add: get_chef_client_hosts)
  then show ?thesis
    by (subst run_list_unbound [where c = "''/usr/bin/chef-client''"])
       (simp_all add: get_chef_client_eq skip_abort_def skip_events_def skipfile_path_def
          run_defaults_def module_load_def demo_host_def)
qed

text \<open>
  The same holds on every host and for every list: in the module as loaded, a run with a
  list-valued \<^verbatim>\<open>run_list\<close> creates no temporary file and executes nothing.
\<close>

lemma run_list_never_reaches_execution:
  assumes "is_list (run_list a)"
  shows "tmp_created (snd (run (module_load b) w a)) = [] \<and>
         execs (snd (run (module_load b) w a)) = []"
proof (cases rule: run_cases [where w=w and a=a and g="module_load b"])
  case not_located
  then show ?thesis by (simp add: run_not_located)
next
  case (skipped c)
  then show ?thesis by (simp add: run_skipped)
next
  case (no_list c)
  then show ?thesis using assms by simp
next
  case (unbound c)
  then show ?thesis by (simp add: run_list_unbound)
next
  case (bad_item c)
  then show ?thesis by (simp add: module_load_def)
next
  case (ok c ss)
  then show ?thesis by (simp add: module_load_def)
qed

text \<open>
  More generally, in the module as loaded no invocation of \<^verbatim>\<open>run\<close> creates a temporary
  file, whatever its arguments and whatever the host.
\<close>

lemma run_creates_no_tmpfile_as_loaded:
  "tmp_created (snd (run (module_load b) w a)) = []"
proof (cases rule: run_cases [where w=w and a=a and g="module_load b"])
  case not_located
  then show ?thesis by (simp add: run_not_located)
next
  case (skipped c)
  then show ?thesis by (simp add: run_skipped)
next
  case (no_list c)
  then show ?thesis by (simp add: run_no_list)
next
  case (unbound c)
  then show ?thesis by (simp add: run_list_unbound)
next
  case (bad_item c)
  then show ?thesis by (simp add: module_load_def)
next
  case (ok c ss)
  then show ?thesis by (simp add: module_load_def)
qed

text \<open>
  \<^bold>\<open>C5\<close>. When the executable is located, \<^verbatim>\<open>force\<close> is \<open>False\<close> and a file exists at the
  resolved skip-file path (the configured value of \<^verbatim>\<open>chef.client.skipfile\<close>, by default
  \<^verbatim>\<open>/etc/chef/no_chef_run\<close>), \<^verbatim>\<open>run\<close> returns the message naming that path and hands
  nothing to the command-execution facility.
\<close>

theorem run_skipfile_present_aborts:
  assumes "fst (get_chef_client w) = Inr (Some c)"
      and "force a = PBool False"
      and "isfile w (skipfile_path w)"
  shows "fst (run g w a) =
           Inr (PStr (''Skipfile is present at '' @ skipfile_path w @ '', skipping'')) \<and>
         execs (snd (run g w a)) = []"
  using assms by (simp add: run_skipped skip_abort_def)

text \<open>Witness for \<^bold>\<open>C5\<close>: the default call on the host with the default skip-file.\<close>

theorem run_skipfile_present_aborts_witness:
  "fst (get_chef_client skipfile_host) = Inr (Some ''/usr/bin/chef-client'') \<and>
   force run_defaults = PBool False \<and>
   isfile skipfile_host (skipfile_path skipfile_host) \<and>
   skipfile_path skipfile_host = ''/etc/chef/no_chef_run'' \<and>
   fst (run (module_load True) skipfile_host run_defaults) =
     Inr (PStr ''Skipfile is present at /etc/chef/no_chef_run, skipping'') \<and>
   execs (snd (run (module_load True) skipfile_host run_defaults)) = []"
proof -
  have h1: "fst (get_chef_client skipfile_host) = Inr (Some ''/usr/bin/chef-client'')"
    by (simp add: get_chef_client_hosts)
  have h2: "force run_defaults = PBool False"
    by (simp add: run_defaults_def)
  have p: "skipfile_path skipfile_host = ''/etc/chef/no_chef_run''"
    by (simp add: skipfile_path_def skipfile_host_def demo_host_def)
  have h3: "isfile skipfile_host (skipfile_path skipfile_host)"
    by (simp add: p) (simp add: skipfile_host_def)
  show ?thesis
    using h1 h2 h3 p run_skipfile_present_aborts [OF h1 h2 h3, of "module_load True"]
    by simp
qed

text \<open>
  \<^bold>\<open>C8\<close>. Whenever a value other than \<open>None\<close> is supplied for \<^verbatim>\<open>dry_run\<close>, also a falsy
  one, the command \<^verbatim>\<open>run\<close> executes is the command the same invocation executes without
  \<^verbatim>\<open>dry_run\<close>, with \<^verbatim>\<open> --why-run\<close> appended.
\<close>

theorem dry_run_supplied_appends_why_run:
  assumes "dry_run a \<noteq> PNone"
  shows "execs (snd (run g w a)) =
         map (\<lambda>c. c @ '' --why-run'') (execs (snd (run g w (a\<lparr>dry_run := PNone\<rparr>))))"
proof -
  let ?b = "a\<lparr>dry_run := PNone\<rparr>"
  have fl: "trailing_flags w a = trailing_flags w ?b @ '' --why-run''"
    using trailing_flags_dry_run [of "dry_run a" w a] assms by simp
  show ?thesis
  proof (cases rule: run_cases [where w=w and a=a and g=g])
    case not_located
    then show ?thesis by (simp add: run_not_located)
  next
    case (skipped c)
    then show ?thesis by (simp add: run_skipped)
  next
    case (no_list c)
    then show ?thesis by (simp add: run_no_list fl)
  next
    case (unbound c)
    then show ?thesis by (simp add: run_list_unbound)
  next
    case (bad_item c)
    then show ?thesis by (simp add: run_list_bad_item)
  next
    case (ok c ss)
    then show ?thesis by (simp add: run_list_ok fl)
  qed
qed

text \<open>Witness for \<^bold>\<open>C8\<close>: \<^verbatim>\<open>run(dry_run=False)\<close> on the example host.\<close>

theorem dry_run_supplied_appends_why_run_witness:
  "dry_run (run_defaults\<lparr>dry_run := PBool False\<rparr>) \<noteq> PNone \<and>
   execs (snd (run (module_load True) demo_host (run_defaults\<lparr>dry_run := PBool False\<rparr>))) =
     [''/usr/bin/chef-client --why-run'']"
proof -
  have h: "dry_run (run_defaults\<lparr>dry_run := PBool False\<rparr>) \<noteq> PNone" by simp
  have g: "fst (get_chef_client demo_host) = Inr (Some ''/usr/bin/chef-client'')"
    by (simp add: get_chef_client_hosts)
  have "execs (snd (run (module_load True) demo_host (run_defaults\<lparr>dry_run := PNone\<rparr>))) =
          [''/usr/bin/chef-client'']"
    by (subst run_no_list [OF g])
       (simp_all add: skip_abort_def skipfile_path_def run_defaults_def demo_host_def
          trailing_flags_def)
  with h dry_run_supplied_appends_why_run [OF h, of "module_load True" demo_host]
  show ?thesis by simp
qed

text \<open>
  \<^bold>\<open>C9\<close>. When \<^verbatim>\<open>force\<close> is any value other than the Boolean \<open>False\<close> (the integer \<open>0\<close>
  and \<open>None\<close> included), \<^verbatim>\<open>run\<close> behaves exactly as with \<^verbatim>\<open>force=True\<close> and reads no
  configuration option, so the skip-file path is never resolved.
\<close>

theorem force_checked_by_identity:
  assumes "force a \<noteq> PBool False"
  shows "run g w a = run g w (a\<lparr>force := PBool True\<rparr>) \<and>
         config_reads (snd (run g w a)) = []"
proof
  show "run g w a = run g w (a\<lparr>force := PBool True\<rparr>)"
    unfolding run_def using assms by (simp cong del: if_weak_cong)
  have se: "skip_events w a = []" using assms by (simp add: skip_events_def)
  show "config_reads (snd (run g w a)) = []"
  proof (cases rule: run_cases [where w=w and a=a and g=g])
    case not_located
    then show ?thesis by (simp add: run_not_located)
  next
    case (skipped c)
    then show ?thesis using assms by (simp add: skip_abort_def)
  next
    case (no_list c)
    then show ?thesis by (simp add: run_no_list se)
  next
    case (unbound c)
    then show ?thesis by (simp add: run_list_unbound se)
  next
    case (bad_item c)
    then show ?thesis by (simp add: run_list_bad_item se)
  next
    case (ok c ss)
    then show ?thesis by (simp add: run_list_ok se)
  qed
qed

text \<open>
  Witness for \<^bold>\<open>C9\<close>: \<^verbatim>\<open>run(force=0)\<close> on the host with the skip-file in place executes
  the client.
\<close>

theorem force_checked_by_identity_witness:
  "force (run_defaults\<lparr>force := PInt 0\<rparr>) \<noteq> PBool False \<and>
   run (module_load True) skipfile_host (run_defaults\<lparr>force := PInt 0\<rparr>) =
     run (module_load True) skipfile_host
       (run_defaults\<lparr>force := PInt 0, force := PBool True\<rparr>) \<and>
   config_reads (snd (run (module_load True) skipfile_host
                        (run_defaults\<lparr>force := PInt 0\<rparr>))) = [] \<and>
   run (module_load True) skipfile_host (run_defaults\<lparr>force := PInt 0\<rparr>) =
     (Inr (PList [PStr ''Chef: 11.4.0'']),
      [Which ''chef-client'', Exec ''/usr/bin/chef-client''])"
proof -
  have h: "force (run_defaults\<lparr>force := PInt 0\<rparr>) \<noteq> PBool False" by simp
  have g: "fst (get_chef_client skipfile_host) = Inr (Some ''/usr/bin/chef-client'')"
    by (simp add: get_chef_client_hosts)
  have v: "run (module_load True) skipfile_host (run_defaults\<lparr>force := PInt 0\<rparr>) =
     (Inr (PList [PStr ''Chef: 11.4.0'']),
      [Which ''chef-client'', Exec ''/usr/bin/chef-client''])"
    by (subst run_no_list [OF g])
       (simp_all add: skip_abort_def skip_events_def run_defaults_def skipfile_host_def
          demo_host_def trailing_flags_def key_probes_def exec_phase_def get_chef_client_eq)
  note t = force_checked_by_identity [OF h, of "module_load True" skipfile_host]
  show ?thesis
    by (intro conjI h v t [THEN conjunct1] t [THEN conjunct2])
qed

text \<open>
  \<^bold>\<open>C10\<close>. When \<^verbatim>\<open>run_list\<close> is supplied but is not a list, \<^verbatim>\<open>run\<close> behaves exactly as if
  no \<^verbatim>\<open>run_list\<close> had been supplied: no temporary file is created, and the command is the
  one without the json-attributes flag.
\<close>

theorem non_list_run_list_ignored:
  assumes "\<not> is_list (run_list a)"
  shows "run g w a = run g w (a\<lparr>run_list := PNone\<rparr>) \<and>
         tmp_created (snd (run g w a)) = []"
proof
  show "run g w a = run g w (a\<lparr>run_list := PNone\<rparr>)"
    unfolding run_def using assms by (simp cong del: if_weak_cong)
  show "tmp_created (snd (run g w a)) = []"
  proof (cases rule: run_cases [where w=w and a=a and g=g])
    case not_located
    then show ?thesis by (simp add: run_not_located)
  next
    case (skipped c)
    then show ?thesis by (simp add: run_skipped)
  next
    case (no_list c)
    then show ?thesis by (simp add: run_no_list)
  next
    case (unbound c)
    then show ?thesis using assms by simp
  next
    case (bad_item c)
    then show ?thesis using assms by simp
  next
    case (ok c ss)
    then show ?thesis using assms by simp
  qed
qed

text \<open>
  Witness for \<^bold>\<open>C10\<close>: \<^verbatim>\<open>run(run_list="role[global]")\<close>, a string, on the example host
  executes the bare client.
\<close>

theorem non_list_run_list_ignored_witness:
  "\<not> is_list (run_list (run_defaults\<lparr>run_list := PStr ''role[global]''\<rparr>)) \<and>
   run (module_load True) demo_host (run_defaults\<lparr>run_list := PStr ''role[global]''\<rparr>) =
     run (module_load True) demo_host
       (run_defaults\<lparr>run_list := PStr ''role[global]'', run_list := PNone\<rparr>) \<and>
   tmp_created (snd (run (module_load True) demo_host
     (run_defaults\<lparr>run_list := PStr ''role[global]''\<rparr>))) = [] \<and>
   execs (snd (run (module_load True) demo_host
     (run_defaults\<lparr>run_list := PStr ''role[global]''\<rparr>))) = [''/usr/bin/chef-client'']"
proof -
  have h: "\<not> is_list (run_list (run_defaults\<lparr>run_list := PStr ''role[global]''\<rparr>))"
    by simp
  have g: "fst (get_chef_client demo_host) = Inr (Some ''/usr/bin/chef-client'')"
    by (simp add: get_chef_client_hosts)
  have v: "execs (snd (run (module_load True) demo_host
     (run_defaults\<lparr>run_list := PStr ''role[global]''\<rparr>))) = [''/usr/bin/chef-client'']"
    by (subst run_no_list [OF g])
       (simp_all add: skip_abort_def skipfile_path_def run_defaults_def demo_host_def
          trailing_flags_def)
  note t = non_list_run_list_ignored [OF h, of "module_load True" demo_host]
  show ?thesis
    by (intro conjI h v t [THEN conjunct1] t [THEN conjunct2])
qed

end
